theory Spec2Isabelle
  imports Main
begin

section \<open>ADOdb release upload script (scripts/uploadrelease.py)\<close>

text \<open>
  A shallow embedding of \<^verbatim>\<open>scripts/uploadrelease.py\<close>. Python strings are modelled as
  \<^typ>\<open>string\<close> over the ASCII alphabet: the class \<^verbatim>\<open>\d\<close> and the conversion \<^verbatim>\<open>int()\<close>
  are modelled on the ASCII digits. Everything the script does to the outside (printing,
  running a shell command, sending an HTTP request) is an event of a trace; \<^verbatim>\<open>sys.exit\<close>
  and an exception nobody catches end the run with a value of type \<open>halt\<close>.
\<close>

subsection \<open>Python string operations used by the script\<close>

datatype pyexn =
  IndexError | AttributeError | ValueError | KeyError | TypeError
  | JSONDecodeError | OSError | RequestException

definition startswith :: "string \<Rightarrow> string \<Rightarrow> bool" where
  "startswith s p = (take (length p) s = p)"


text \<open>\<^verbatim>\<open>s.split(c)\<close> for a one-character separator; \<^verbatim>\<open>s.rsplit(c)\<close> without a
  maximum gives the same list.\<close>

fun split_on :: "char \<Rightarrow> string \<Rightarrow> string list" where
  "split_on c [] = [[]]"
| "split_on c (x # xs) =
     (if x = c then [] # split_on c xs
      else (case split_on c xs of
              [] \<Rightarrow> [[x]]
            | h # t \<Rightarrow> (x # h) # t))"

text \<open>\<^verbatim>\<open>s.rsplit(c, 1)\<close>: split once, at the last separator.\<close>

definition rsplit1 :: "char \<Rightarrow> string \<Rightarrow> string list" where
  "rsplit1 c s =
     (if c \<in> set s
      then [rev (tl (dropWhile (\<lambda>x. x \<noteq> c) (rev s))), rev (takeWhile (\<lambda>x. x \<noteq> c) (rev s))]
      else [s])"

text \<open>Subscripting a list: \<^verbatim>\<open>xs[i]\<close> for \<open>i \<ge> 0\<close> raises \<^verbatim>\<open>IndexError\<close> out of range.\<close>

definition item :: "'a list \<Rightarrow> nat \<Rightarrow> pyexn + 'a" where
  "item xs i = (if i < length xs then Inr (xs ! i) else Inl IndexError)"


definition isdigit :: "char \<Rightarrow> bool" where
  "isdigit c = (let n = (of_char c :: nat) in 48 \<le> n \<and> n \<le> 57)"

text \<open>The whitespace \<^verbatim>\<open>int()\<close> strips from both ends: tab, line feed, vertical tab, form
  feed, carriage return, the separators 0x1C to 0x1F, and the space.\<close>

definition isspace :: "char \<Rightarrow> bool" where
  "isspace c = (let n = (of_char c :: nat) in (9 \<le> n \<and> n \<le> 13) \<or> (28 \<le> n \<and> n \<le> 32))"

definition strip :: "string \<Rightarrow> string" where
  "strip s = rev (dropWhile isspace (rev (dropWhile isspace s)))"

definition digit_val :: "char \<Rightarrow> nat" where
  "digit_val c = of_char c - 48"

text \<open>The value of a digit sequence, read left to right with an accumulator.\<close>

fun digits_val :: "nat \<Rightarrow> string \<Rightarrow> nat" where
  "digits_val acc [] = acc"
| "digits_val acc (c # cs) = digits_val (10 * acc + digit_val c) cs"

text \<open>The digit part of an integer literal: digits, with single underscores allowed
  between two digits.\<close>

fun int_body :: "string \<Rightarrow> bool" where
  "int_body [] = False"
| "int_body [c] = isdigit c"
| "int_body (c # d # cs) =
     (isdigit c \<and> (if d = CHR ''_'' then int_body cs else int_body (d # cs)))"

text \<open>\<^verbatim>\<open>int(s)\<close> in base 10: surrounding whitespace is stripped, one sign is allowed, and
  anything else raises \<^verbatim>\<open>ValueError\<close>. (CPython's limit of 4300 digits on the conversion
  is not modelled; a file name is at most 255 bytes long.)\<close>

definition py_int :: "string \<Rightarrow> pyexn + int" where
  "py_int s =
     (let t = strip s;
          neg = (t \<noteq> [] \<and> hd t = CHR ''-'');
          body = (if t \<noteq> [] \<and> (hd t = CHR ''-'' \<or> hd t = CHR ''+'') then tl t else t)
      in if int_body body
         then (let v = int (digits_val 0 (filter (\<lambda>c. c \<noteq> CHR ''_'') body))
               in Inr (if neg then - v else v))
         else Inl ValueError)"

text \<open>\<^verbatim>\<open>'{}'.format(n)\<close> for an integer: its decimal numeral.\<close>

fun show_nat :: "nat \<Rightarrow> string" where
  "show_nat n =
     (if n < 10 then [char_of (48 + n)]
      else show_nat (n div 10) @ [char_of (48 + n mod 10)])"

declare show_nat.simps [simp del]

definition show_int :: "int \<Rightarrow> string" where
  "show_int i = (if i < 0 then CHR ''-'' # show_nat (nat (- i)) else show_nat (nat i))"

subsection \<open>The target directory\<close>

text \<open>\<^verbatim>\<open>sourceforge_target_dir(version)\<close>. The two subscripts \<^verbatim>\<open>[0]\<close> are on the results of
  \<^verbatim>\<open>rsplit\<close> and \<^verbatim>\<open>split\<close>; \<^verbatim>\<open>int\<close> can raise.\<close>

definition sourceforge_target_dir :: "string \<Rightarrow> pyexn + string" where
  "sourceforge_target_dir version =
     (case item (split_on CHR ''.'' version) 0 of
        Inl e \<Rightarrow> Inl e
      | Inr major_text \<Rightarrow>
     (case py_int major_text of
        Inl e \<Rightarrow> Inl e
      | Inr major_version \<Rightarrow>
     (let directory =
            (if major_version = 5 then ''adodb-php5-only/''
             else ''adodb'' @ show_int major_version @ ''/'')
      in case item (split_on CHR ''-'' version) 0 of
           Inl e \<Rightarrow> Inl e
         | Inr before_dash \<Rightarrow>
        (case item (rsplit1 CHR ''.'' before_dash) 0 of
           Inl e \<Rightarrow> Inl e
         | Inr short_version \<Rightarrow> Inr (directory @ ''adodb-'' @ short_version)))))"

subsection \<open>Finding the release archive\<close>

text \<open>\<^verbatim>\<open>fnmatch\<close> for a pattern of literal characters and \<^verbatim>\<open>*\<close> (the three patterns of
  the script have no other wildcard); the whole name has to match.\<close>

fun fnmatch :: "string \<Rightarrow> string \<Rightarrow> bool" where
  "fnmatch [] [] = True"
| "fnmatch (c # cs) [] = False"
| "fnmatch [] (p # ps) = (p = CHR ''*'' \<and> fnmatch [] ps)"
| "fnmatch (c # cs) (p # ps) =
     (if p = CHR ''*'' then fnmatch (c # cs) ps \<or> fnmatch cs (p # ps)
      else c = p \<and> fnmatch cs ps)"











subsection \<open>Paths, URLs and JSON values\<close>



text \<open>A value of the \<^verbatim>\<open>params\<close> dictionary of a request: a string or a list of strings.\<close>

datatype pval = PStr string | PList "string list"

record request =
  req_method :: string
  req_url :: string
  req_headers :: "(string \<times> string) list"
  req_params :: "(string \<times> pval) list"

record response =
  status_code :: nat
  text_body :: string









text \<open>The result of \<^verbatim>\<open>json.loads\<close>; an object is the list of its members.\<close>

datatype json =
  JNull | JBool bool | JNumber string | JString string
  | JArray "json list" | JObject "(string \<times> json) list"


subsection \<open>The environment of a run, its effects and its state\<close>

text \<open>What a run reads from outside the script. \<open>getopt_result\<close> is what
  \<^verbatim>\<open>getopt.gnu_getopt(sys.argv[1:], options, long_options)\<close> does: \<open>Inl\<close> of the message
  of the \<^verbatim>\<open>GetoptError\<close>, or \<open>Inr\<close> of the options (with their canonical names) and the
  remaining arguments. \<open>chdir\<close> answers \<^verbatim>\<open>os.chdir(path)\<close>: \<open>None\<close> when it raises
  \<^verbatim>\<open>OSError\<close>, otherwise the entries of the directory the process is in afterwards.
  \<open>sf_api_key\<close> is \<^verbatim>\<open>env.sf_api_key\<close> of the module \<^verbatim>\<open>adodbutil\<close>. \<open>http_put\<close> is the
  service's answer to a request, or the exception \<^verbatim>\<open>requests.put\<close> raises. \<open>py_str\<close> is
  the text \<^verbatim>\<open>print\<close> writes for a JSON value.\<close>

record world =
  script_name :: string
  getopt_result :: "string + ((string \<times> string) list \<times> string list)"
  getuser :: string
  getcwd :: string
  cwd_entries :: "string list"
  chdir :: "string \<Rightarrow> string list option"
  sf_api_key :: string
  http_put :: "request \<Rightarrow> pyexn + response"
  json_loads :: "string \<Rightarrow> pyexn + json"
  py_str :: "json \<Rightarrow> string"

text \<open>An effect: a line written by \<^verbatim>\<open>print\<close> (the arguments joined by spaces, without
  the final line feed), a command run by \<^verbatim>\<open>subprocess.call(cmd, shell=True)\<close>, or a
  request sent by \<^verbatim>\<open>requests.put\<close>.\<close>

datatype event = Print string | Call string | Put request

datatype halt = SysExit nat | Uncaught pyexn

text \<open>A computation: the events so far, and either how the run ended or a value.\<close>

type_synonym 'a run = "event list \<times> (halt + 'a)"

definition emit :: "event list \<Rightarrow> 'a run \<Rightarrow> 'a run" where
  "emit es m = (es @ fst m, snd m)"

definition seq :: "'a run \<Rightarrow> ('a \<Rightarrow> 'b run) \<Rightarrow> 'b run" where
  "seq m f = (case snd m of Inl h \<Rightarrow> (fst m, Inl h) | Inr a \<Rightarrow> emit (fst m) (f a))"

definition raise_or :: "pyexn + 'a \<Rightarrow> ('a \<Rightarrow> 'b run) \<Rightarrow> 'b run" where
  "raise_or x f = (case x of Inl e \<Rightarrow> ([], Inl (Uncaught e)) | Inr a \<Rightarrow> f a)"

text \<open>The global flags of the script, and the entries of the current directory.\<close>

record globals =
  dry_run :: bool
  username :: string
  release_path :: string
  skip_upload :: bool
  entries :: "string list"





definition nl :: string where
  "nl = [CHR 0x0A]"

definition usage_text :: "string \<Rightarrow> string" where
  "usage_text prog =
      ''Usage: '' @ prog @ '' [options] username [release_path]'' @ nl @
      nl @
      ''    This script will upload the files in the given directory (or the'' @ nl @
      ''    current one if unspecified) to SourceForge.'' @ nl @
      nl @
      ''    Parameters:'' @ nl @
      ''        release_path            Location of the release files to upload,'' @ nl @
      ''                                see buildrelease.py to generate them.'' @ nl @
      ''                                Defaults to current directory.'' @ nl @
      nl @
      ''    Options:'' @ nl @
      ''        -h | --help             Show this usage message'' @ nl @
      ''        -u | --user <name>      SourceForge account (defaults to current user)'' @ nl @
      ''        -s | --skip-upload      Do not upload the release files (allows only'' @ nl @
      ''                                updating previously uploaded files information)'' @ nl @
      ''        -n | --dry-run          Do not upload or update sourceforge'' @ nl"

subsection \<open>The functions of the script\<close>

definition usage :: "world \<Rightarrow> unit run" where
  "usage w = ([Print (usage_text (script_name w))], Inr ())"













subsection \<open>Vocabulary of the specification\<close>

text \<open>A digit sequence: one digit or more.\<close>

definition all_digits :: "string \<Rightarrow> bool" where
  "all_digits s = (s \<noteq> [] \<and> list_all isdigit s)"

text \<open>The pre-release suffixes of the specification: a dash, one of the three phase
  labels, a dot, a digit sequence.\<close>

definition prerelease :: "string \<Rightarrow> bool" where
  "prerelease sfx =
     (\<exists>phase n. phase \<in> {''alpha'', ''beta'', ''rc''} \<and> all_digits n \<and>
        sfx = ''-'' @ phase @ ''.'' @ n)"


subsection \<open>Vocabulary for runs\<close>

fun is_print :: "event \<Rightarrow> bool" where
  "is_print (Print line) = True"
| "is_print (Call cmd) = False"
| "is_print (Put req) = False"

text \<open>The requests of a trace, in the order they were sent.\<close>

fun requests_of :: "event list \<Rightarrow> request list" where
  "requests_of [] = []"
| "requests_of (Put r # es) = r # requests_of es"
| "requests_of (Print line # es) = requests_of es"
| "requests_of (Call cmd # es) = requests_of es"




text \<open>\<open>sub\<close> occurs in \<open>s\<close> as a block of consecutive characters.\<close>

fun contains :: "string \<Rightarrow> string \<Rightarrow> bool" where
  "contains [] sub = (sub = [])"
| "contains (c # cs) sub = (startswith (c # cs) sub \<or> contains cs sub)"


section \<open>Properties\<close>

subsection \<open>Splitting strings and reading numbers\<close>

lemma split_on_nonempty: "split_on c s \<noteq> []"
  by (induction s) (auto split: list.splits)

lemma split_on_absent: "c \<notin> set s \<Longrightarrow> split_on c s = [s]"
  by (induction s) auto

lemma split_on_first: "c \<notin> set a \<Longrightarrow> split_on c (a @ c # r) = a # split_on c r"
  by (induction a) (auto split: list.splits simp: split_on_nonempty)

lemma rsplit1_last: "c \<notin> set z \<Longrightarrow> rsplit1 c (a @ c # z) = [a, z]"
proof -
  assume a: "c \<notin> set z"
  have t: "takeWhile (\<lambda>x. x \<noteq> c) (rev z @ c # rev a) = rev z"
    using a by (auto simp: takeWhile_tail)
  have d: "dropWhile (\<lambda>x. x \<noteq> c) (rev z @ c # rev a) = c # rev a"
  proof -
    have "dropWhile (\<lambda>x. x \<noteq> c) (rev z @ c # rev a) = dropWhile (\<lambda>x. x \<noteq> c) (c # rev a)"
      using a by (intro dropWhile_append2) auto
    then show ?thesis by simp
  qed
  show ?thesis by (simp add: rsplit1_def t d)
qed

lemma isdigit_not_space: "isdigit c \<Longrightarrow> \<not> isspace c"
  by (auto simp: isdigit_def isspace_def Let_def)

lemma isdigit_neq:
  "isdigit c \<Longrightarrow> c \<noteq> CHR ''.'' \<and> c \<noteq> CHR ''-'' \<and> c \<noteq> CHR ''+'' \<and> c \<noteq> CHR ''_''"
  by (auto simp: isdigit_def Let_def)

lemma all_digits_notin:
  "all_digits s \<Longrightarrow> CHR ''.'' \<notin> set s \<and> CHR ''-'' \<notin> set s \<and> CHR ''_'' \<notin> set s"
  using isdigit_neq by (auto simp: all_digits_def list_all_iff)

lemma strip_digits: "all_digits s \<Longrightarrow> strip s = s"
proof -
  assume a: "all_digits s"
  then have h: "\<not> isspace (hd s)" and l: "\<not> isspace (last s)" and ne: "s \<noteq> []"
    by (auto simp: all_digits_def list_all_iff isdigit_not_space)
  from ne h have 1: "dropWhile isspace s = s" by (cases s) auto
  from ne l have 2: "dropWhile isspace (rev s) = rev s"
    by (cases "rev s") (auto simp: last_rev[symmetric] simp del: last_rev)
  show ?thesis by (simp add: strip_def 1 2)
qed

lemma int_body_digits: "s \<noteq> [] \<Longrightarrow> list_all isdigit s \<Longrightarrow> int_body s"
  by (induction s rule: int_body.induct) (auto dest: isdigit_neq)

lemma py_int_digits: "all_digits s \<Longrightarrow> py_int s = Inr (int (digits_val 0 s))"
proof -
  assume a: "all_digits s"
  then have ne: "s \<noteq> []" and d: "isdigit (hd s)" by (auto simp: all_digits_def list_all_iff)
  have f: "filter (\<lambda>c. c \<noteq> CHR ''_'') s = s"
    using all_digits_notin[OF a] by (auto simp: filter_id_conv)
  have b: "int_body s" using a by (simp add: all_digits_def int_body_digits)
  show ?thesis
    using ne isdigit_neq[OF d] f b by (simp add: py_int_def strip_digits[OF a] Let_def)
qed

lemma show_int_nat: "show_int (int n) = show_nat n"
  by (simp add: show_int_def)

text \<open>The target directory of a name made of three digit sequences and anything that
  is empty or starts with a dash.\<close>

lemma target_dir_general:
  assumes X: "all_digits X" and Y: "all_digits Y" and Z: "all_digits Z"
    and sfx: "sfx = [] \<or> (\<exists>r. sfx = CHR ''-'' # r)"
  shows "sourceforge_target_dir (X @ ''.'' @ Y @ ''.'' @ Z @ sfx) =
         Inr ((if digits_val 0 X = 5 then ''adodb-php5-only''
               else ''adodb'' @ show_nat (digits_val 0 X))
              @ ''/'' @ ''adodb-'' @ X @ ''.'' @ Y)"
proof -
  let ?xyz = "X @ CHR ''.'' # Y @ CHR ''.'' # Z"
  have 1: "item (split_on CHR ''.'' (?xyz @ sfx)) 0 = Inr X"
    using all_digits_notin[OF X] by (simp add: split_on_first item_def)
  have xyz: "CHR ''-'' \<notin> set ?xyz"
    using all_digits_notin[OF X] all_digits_notin[OF Y] all_digits_notin[OF Z] by simp
  have 2: "item (split_on CHR ''-'' (?xyz @ sfx)) 0 = Inr ?xyz"
  proof (cases "sfx = []")
    case True
    then show ?thesis using split_on_absent[OF xyz] by (simp add: item_def)
  next
    case False
    then obtain r where r: "sfx = CHR ''-'' # r" using sfx by blast
    show ?thesis
      unfolding r split_on_first[OF xyz, of r] by (simp add: item_def)
  qed
  have "?xyz = (X @ CHR ''.'' # Y) @ CHR ''.'' # Z" by simp
  then have 3: "item (rsplit1 CHR ''.'' ?xyz) 0 = Inr (X @ CHR ''.'' # Y)"
    using rsplit1_last[of "CHR ''.''" Z "X @ CHR ''.'' # Y"] all_digits_notin[OF Z]
    by (simp add: item_def)
  have v: "X @ ''.'' @ Y @ ''.'' @ Z @ sfx = ?xyz @ sfx" by simp
  show ?thesis
    unfolding v sourceforge_target_dir_def 1 2
    by (simp add: 3 py_int_digits[OF X] show_int_nat)
qed

text \<open>
  Claim C1. For a version \<open>X.Y.Z\<close>, with or without a pre-release suffix
  \<open>-phase.n\<close>, the target directory is the base segment, a slash and the sub segment.
  The base segment is \<open>adodb-php5-only\<close> when the major version, read as a number, is
  5, and \<open>adodb\<close> followed by the decimal numeral of the major version otherwise; the
  sub segment is \<open>adodb-\<close> followed by \<open>X.Y\<close> as written. In particular \<open>5.20.9\<close> gives
  \<open>adodb-php5-only/adodb-5.20\<close> and \<open>7.3.1-beta.2\<close> gives \<open>adodb7/adodb-7.3\<close>.
\<close>

theorem C1_target_directory:
  assumes "all_digits X" and "all_digits Y" and "all_digits Z"
    and "sfx = [] \<or> prerelease sfx"
  shows "sourceforge_target_dir (X @ ''.'' @ Y @ ''.'' @ Z @ sfx) =
           Inr ((if digits_val 0 X = 5 then ''adodb-php5-only''
                 else ''adodb'' @ show_nat (digits_val 0 X))
                @ ''/'' @ (''adodb-'' @ X @ ''.'' @ Y))
         \<and> sourceforge_target_dir ''5.20.9'' = Inr ''adodb-php5-only/adodb-5.20''
         \<and> sourceforge_target_dir ''7.3.1-beta.2'' = Inr ''adodb7/adodb-7.3''"
proof -
  have s: "sfx = [] \<or> (\<exists>r. sfx = CHR ''-'' # r)"
    using assms(4) by (auto simp: prerelease_def)
  have g: "sourceforge_target_dir (X @ ''.'' @ Y @ ''.'' @ Z @ sfx) =
           Inr ((if digits_val 0 X = 5 then ''adodb-php5-only''
                 else ''adodb'' @ show_nat (digits_val 0 X))
                @ ''/'' @ (''adodb-'' @ X @ ''.'' @ Y))"
    using target_dir_general[OF assms(1-3) s] by simp
  have e1: "sourceforge_target_dir ''5.20.9'' = Inr ''adodb-php5-only/adodb-5.20''"
    by code_simp
  have e2: "sourceforge_target_dir ''7.3.1-beta.2'' = Inr ''adodb7/adodb-7.3''"
    by code_simp
  from g e1 e2 show ?thesis by blast
qed

theorem C1_target_directory_witness:
  "all_digits ''12'' \<and> all_digits ''3'' \<and> all_digits ''1'' \<and> prerelease ''-rc.1''
   \<and> sourceforge_target_dir ''12.3.1-rc.1'' = Inr ''adodb12/adodb-12.3''"
proof -
  have d: "all_digits ''12''" "all_digits ''3''" "all_digits ''1''"
    by (simp_all add: all_digits_def isdigit_def)
  have "all_digits ''1'' \<and> ''-rc.1'' = ''-'' @ ''rc'' @ ''.'' @ ''1''"
    using d by simp
  then have p: "prerelease ''-rc.1''"
    unfolding prerelease_def by blast
  have v: "show_nat 12 = ''12''" by code_simp
  have "sourceforge_target_dir (''12'' @ ''.'' @ ''3'' @ ''.'' @ ''1'' @ ''-rc.1'') =
        Inr ((if digits_val 0 ''12'' = 5 then ''adodb-php5-only''
              else ''adodb'' @ show_nat (digits_val 0 ''12''))
             @ ''/'' @ (''adodb-'' @ ''12'' @ ''.'' @ ''3''))"
    using C1_target_directory[OF d disjI2[OF p]] by blast
  then have "sourceforge_target_dir ''12.3.1-rc.1'' = Inr ''adodb12/adodb-12.3''"
    by (simp add: digit_val_def v)
  with d p show ?thesis by blast
qed

subsection \<open>The archive-name pattern\<close>
















lemma fnmatch_literal: "CHR ''*'' \<notin> set l \<Longrightarrow> fnmatch s l \<longleftrightarrow> s = l"
  by (induction s l rule: fnmatch.induct) auto

lemma fnmatch_star: "fnmatch s (CHR ''*'' # ps) \<longleftrightarrow> (\<exists>a b. s = a @ b \<and> fnmatch b ps)"
proof (induction s)
  case Nil
  then show ?case by simp
next
  case (Cons c cs)
  have "fnmatch (c # cs) (CHR ''*'' # ps) \<longleftrightarrow>
        fnmatch (c # cs) ps \<or> (\<exists>a b. cs = a @ b \<and> fnmatch b ps)"
    using Cons.IH by simp
  also have "\<dots> \<longleftrightarrow> (\<exists>a b. c # cs = a @ b \<and> fnmatch b ps)"
    by (auto simp: Cons_eq_append_conv) 
  finally show ?case .
qed

lemma fnmatch_cons:
  "c \<noteq> CHR ''*'' \<Longrightarrow> fnmatch s (c # ps) \<longleftrightarrow> (\<exists>t. s = c # t \<and> fnmatch t ps)"
  by (cases s) auto


lemma glob_prefix_iff: "fnmatch n ''adodb-*'' \<longleftrightarrow> (\<exists>m. n = ''adodb-'' @ m)"
  by (auto simp: fnmatch_cons fnmatch_star fnmatch_literal)





subsection \<open>Sequencing, the command line and version resolution\<close>


lemma emit_simps [simp]:
  "emit es (es', r) = (es @ es', r)"
  "fst (emit es m) = es @ fst m"
  "snd (emit es m) = snd m"
  by (simp_all add: emit_def)

lemma seq_simps [simp]:
  "seq (es, Inl h) f = (es, Inl h)"
  "seq (es, Inr a) f = emit es (f a)"
  by (simp_all add: seq_def)

lemma raise_or_simps [simp]:
  "raise_or (Inl e) f = ([], Inl (Uncaught e))"
  "raise_or (Inr a) f = f a"
  by (simp_all add: raise_or_def)




lemma raise_or_prints:
  assumes "\<And>a. x = Inr a \<Longrightarrow> list_all is_print (fst (f a))"
  shows "list_all is_print (fst (raise_or x f))"
  using assms by (cases x) auto

lemma usage_simp [simp]: "usage w = ([Print (usage_text (script_name w))], Inr ())"
  by (simp add: usage_def)














lemma prints_no_requests: "list_all is_print es \<Longrightarrow> requests_of es = []"
  by (induction es rule: requests_of.induct) auto








end
